theory Spec2Isabelle
  imports Complex_Main "HOL-Library.Product_Lexorder"
begin

section \<open>Python values\<close>

text \<open>
  Python floats are idealised as reals, Python ints are \<open>int\<close>. A \<open>datetime\<close> is the
  number of microseconds since a fixed epoch, a \<open>timedelta\<close> a number of microseconds;
  \<open>timedelta.days\<close> rounds towards minus infinity, as Python normalises it.
\<close>

type_synonym datetime = int

datatype exception = IndexError | ValueError | TypeError | NameError

definition microseconds_per_day :: int where
  "microseconds_per_day = 86400000000"

definition timedelta_days :: "int \<Rightarrow> int" where
  "timedelta_days delta = delta div microseconds_per_day"

definition days :: "int \<Rightarrow> int" where
  \<comment> \<open>\<open>timedelta(days=n)\<close>\<close>
  "days n = n * microseconds_per_day"

definition py_int :: "real \<Rightarrow> int" where
  \<comment> \<open>\<open>int(x)\<close> on a float truncates towards zero\<close>
  "py_int x = (if 0 \<le> x then \<lfloor>x\<rfloor> else \<lceil>x\<rceil>)"

definition py_index :: "'a list \<Rightarrow> int \<Rightarrow> exception + 'a" where
  \<comment> \<open>the subscript \<open>xs[i]\<close>: from the front for \<open>0 \<le> i\<close>, from the back for \<open>i < 0\<close>\<close>
  "py_index xs i =
     (if 0 \<le> i \<and> i < int (length xs) then Inr (xs ! nat i)
      else if i < 0 \<and> - int (length xs) \<le> i then Inr (xs ! nat (int (length xs) + i))
      else Inl IndexError)"

definition upper :: "string \<Rightarrow> string" where
  \<comment> \<open>\<open>str.upper()\<close> on ASCII text\<close>
  "upper s = map (\<lambda>c. case map_of (zip ''abcdefghijklmnopqrstuvwxyz''
                                          ''ABCDEFGHIJKLMNOPQRSTUVWXYZ'') c of
                          None \<Rightarrow> c | Some u \<Rightarrow> u) s"

definition lower :: "string \<Rightarrow> string" where
  \<comment> \<open>\<open>str.lower()\<close> on ASCII text\<close>
  "lower s = map (\<lambda>c. case map_of (zip ''ABCDEFGHIJKLMNOPQRSTUVWXYZ''
                                          ''abcdefghijklmnopqrstuvwxyz'') c of
                          None \<Rightarrow> c | Some l \<Rightarrow> l) s"

definition mean :: "real list \<Rightarrow> real" where
  \<comment> \<open>\<open>np.mean\<close> of a non-empty list\<close>
  "mean xs = sum_list xs / real (length xs)"


section \<open>SpacedRepetitionEngine (app/services/spaced\_repetition.py)\<close>

subsection \<open>Data\<close>

text \<open>
  A row of the table \<open>spaced_repetition_data\<close> for one user and topic. The column
  \<open>next_review\<close> and the column \<open>difficulty\<close> may be absent; the others are read
  with \<open>dict.get\<close> and a default, and every writer of the table fills them.
  \<open>performance_history\<close> holds the scores this engine appends.
\<close>

record sr_data =
  topic_name :: string
  interval_days :: int
  repetitions :: int
  ease_factor :: real
  last_review :: datetime
  next_review :: "datetime option"
  performance_history :: "real list"
  forgetting_probability :: real
  difficulty :: "string option"

text \<open>The dictionary \<open>calculate_next_review\<close> returns; fields carry the prefix \<open>r_\<close>.\<close>

record review_result =
  r_next_review :: datetime
  r_interval_days :: int
  r_repetitions :: int
  r_ease_factor :: real
  r_forgetting_probability :: real

subsection \<open>Constants of \<open>__init__\<close>\<close>

definition min_ease_factor :: real where "min_ease_factor = 1.3"
definition max_ease_factor :: real where "max_ease_factor = 2.5"
definition min_interval :: int where "min_interval = 1"
definition max_interval :: int where "max_interval = 365"

definition INTERVALS_DEFAULT :: "int list" where
  "INTERVALS_DEFAULT = [1, 3, 7, 14, 30, 60, 120]"

definition INTERVALS :: "(string \<times> int list) list" where
  "INTERVALS =
     [(''EASY'', [1, 6, 15, 30, 90, 180, 365]),
      (''MEDIUM'', [1, 3, 7, 14, 30, 60, 120]),
      (''HARD'', [1, 2, 4, 8, 16, 32, 64]),
      (''DEFAULT'', INTERVALS_DEFAULT)]"

definition EXCELLENT :: real where "EXCELLENT = 0.9"
definition GOOD :: real where "GOOD = 0.8"
definition FAIR :: real where "FAIR = 0.6"
definition POOR :: real where "POOR = 0.4"

subsection \<open>Helpers\<close>

definition calculate_interval_adjustment :: "real \<Rightarrow> real \<Rightarrow> real" where
  "calculate_interval_adjustment current_score avg_score =
     (if current_score \<ge> EXCELLENT then 1.5
      else if current_score \<ge> GOOD then 1.2
      else if current_score \<ge> FAIR then 1.0
      else if current_score \<ge> POOR then 0.7
      else 0.5)"

text \<open>
  The body shared by \<open>calculate_forgetting_probability\<close> and
  \<open>_calculate_forgetting_probability\<close>: \<open>retention\<close> is the local variable of that
  name, \<open>now\<close> the clock read by \<open>datetime.now()\<close>.
\<close>

definition retention :: "datetime \<Rightarrow> datetime \<Rightarrow> int \<Rightarrow> real" where
  "retention now lr ivl =
     (let days_since_review = timedelta_days (now - lr);
          time_ratio = (if ivl > 0 then real_of_int days_since_review / real_of_int ivl else 1);
          strength = real_of_int ivl * 0.5
      in if strength > 0 then exp (- time_ratio / strength) else 0)"

definition calculate_forgetting_probability :: "datetime \<Rightarrow> datetime \<Rightarrow> int \<Rightarrow> real" where
  "calculate_forgetting_probability now lr ivl = max 0 (1 - retention now lr ivl)"

definition update_ease_factor :: "real \<Rightarrow> real \<Rightarrow> real" where
  "update_ease_factor current_ease performance =
     (if performance \<ge> 0.9 then current_ease + 0.1
      else if performance \<ge> 0.8 then current_ease
      else if performance \<ge> 0.6 then current_ease - 0.1
      else max 1.3 (current_ease - 0.2))"

subsection \<open>\<open>calculate_next_review\<close>\<close>

text \<open>
  The names bound at the top level of the module: its imports and its two classes. A name
  that a function body reads and that is neither local nor among these (nor a builtin)
  raises \<open>NameError\<close> when the statement is executed.
\<close>

definition module_globals :: "string list" where
  "module_globals =
     [''np'', ''datetime'', ''timedelta'', ''Dict'', ''List'', ''Any'', ''Tuple'',
      ''supabase_client'', ''QuizResult'', ''SpacedRepetitionEngine'']"

definition new_sr_data :: "datetime \<Rightarrow> string \<Rightarrow> sr_data" where
  "new_sr_data now topic =
     \<lparr> topic_name = topic, interval_days = 1, repetitions = 0, ease_factor = 2.5,
       last_review = now, next_review = Some (now + days 1), performance_history = [],
       forgetting_probability = 1.0, difficulty = None \<rparr>"

definition intervals_for :: "string \<Rightarrow> int list" where
  \<comment> \<open>\<open>self.INTERVALS.get(difficulty.upper(), self.INTERVALS['DEFAULT'])\<close>\<close>
  "intervals_for tag =
     (case map_of INTERVALS (upper tag) of Some xs \<Rightarrow> xs | None \<Rightarrow> INTERVALS_DEFAULT)"

text \<open>
  The statements of \<open>calculate_next_review\<close> after its first one, with \<open>found\<close> the
  value of \<open>sr_data\<close> that the first two statements would bind: the row handed to
  \<open>upsert\<close> and the dictionary returned. The clock is read once.
\<close>

definition calculate_next_review_body ::
  "datetime \<Rightarrow> sr_data option \<Rightarrow> string \<Rightarrow> real \<Rightarrow> string \<Rightarrow> exception + (sr_data \<times> review_result)"
where
  "calculate_next_review_body now found topic performance_score tag =
     (let normalized_score = performance_score / 100;
          sr0 = (case found of None \<Rightarrow> new_sr_data now topic | Some d \<Rightarrow> d);
          sr1 = sr0 \<lparr> repetitions := repetitions sr0 + 1, last_review := now,
                      performance_history := performance_history sr0 @ [performance_score] \<rparr>;
          avg_performance = mean (performance_history sr1);
          interval_adjustment = calculate_interval_adjustment normalized_score avg_performance;
          intervals = intervals_for tag
      in case py_index intervals (min (interval_days sr1) (int (length intervals) - 1)) of
           Inl e \<Rightarrow> Inl e
         | Inr current_interval \<Rightarrow>
             (let adjusted_interval =
                    max 1 (py_int (real_of_int current_interval * interval_adjustment));
                  sr2 = (if normalized_score \<ge> GOOD \<and>
                            interval_days sr1 < int (length intervals) - 1
                         then sr1 \<lparr> interval_days := interval_days sr1 + 1 \<rparr> else sr1);
                  sr3 = sr2 \<lparr> next_review := Some (now + days adjusted_interval),
                              forgetting_probability :=
                                calculate_forgetting_probability now (last_review sr2)
                                  adjusted_interval \<rparr>;
                  sr4 = sr3 \<lparr> ease_factor := update_ease_factor (ease_factor sr3) normalized_score \<rparr>
              in Inr (sr4,
                   \<lparr> r_next_review = now + days adjusted_interval,
                     r_interval_days = adjusted_interval,
                     r_repetitions = repetitions sr4,
                     r_ease_factor = ease_factor sr4,
                     r_forgetting_probability = forgetting_probability sr4 \<rparr>)))"

text \<open>
  The first statement of \<open>calculate_next_review\<close> reads the name \<open>db_service\<close>. The
  function raises there when the module does not bind that name, and nothing after it
  runs: no row is handed to \<open>upsert\<close> and no dictionary is returned.
\<close>

definition calculate_next_review ::
  "datetime \<Rightarrow> sr_data option \<Rightarrow> string \<Rightarrow> real \<Rightarrow> string \<Rightarrow> exception + (sr_data \<times> review_result)"
where
  "calculate_next_review now found topic performance_score tag =
     (if ''db_service'' \<in> set module_globals
      then calculate_next_review_body now found topic performance_score tag
      else Inl NameError)"

subsection \<open>\<open>get_topics_due_for_review\<close> and \<open>_create_sample_review_data\<close>\<close>

text \<open>
  The answer of a store query: the call raised, or it returned data. The urgency strings
  \<open>'critical'\<close>, \<open>'high'\<close>, \<open>'medium'\<close>, \<open>'low'\<close> are the constructors of
  \<open>urgency\<close>; the fields of an entry of the returned list carry the prefix \<open>t_\<close>.
\<close>

datatype 'a response = Failed | Data 'a

datatype urgency = Critical | High | Medium | Low

record review_topic =
  t_topic_name :: string
  t_retention_probability :: real
  t_streak :: int
  t_last_review :: datetime
  t_next_review :: datetime
  t_urgency :: urgency
  t_time_overdue_days :: int
  t_ease_factor :: real
  t_difficulty :: string
  t_last_performance :: real

definition rows_of :: "'a list response \<Rightarrow> 'a list" where
  \<comment> \<open>\<open>result.data if result.data else []\<close>, and \<open>[]\<close> in the \<open>except\<close> branch\<close>
  "rows_of r = (case r of Failed \<Rightarrow> [] | Data rs \<Rightarrow> rs)"

definition urgency_rank :: "urgency \<Rightarrow> int" where
  \<comment> \<open>\<open>{'critical': 0, 'high': 1, 'medium': 2, 'low': 3}\<close>\<close>
  "urgency_rank u = (case u of Critical \<Rightarrow> 0 | High \<Rightarrow> 1 | Medium \<Rightarrow> 2 | Low \<Rightarrow> 3)"

definition sample_topic :: "datetime \<Rightarrow> nat \<times> string \<Rightarrow> review_topic" where
  \<comment> \<open>the body of the loop over \<open>enumerate(sample_topics)\<close>\<close>
  "sample_topic now p =
     (let i = int (fst p); topic = snd p;
          days_overdue = i - 2;
          next_rev = now + days days_overdue;
          retention_prob = 0.9 - real_of_int i * 0.15;
          urg = (if days_overdue > 1 then Critical else if days_overdue > 0 then High else Medium)
      in \<lparr> t_topic_name = topic,
           t_retention_probability = max 0.3 retention_prob,
           t_streak = max 1 (5 - i),
           t_last_review = now - days (\<bar>days_overdue\<bar> + 1),
           t_next_review = next_rev,
           t_urgency = urg,
           t_time_overdue_days = max 0 (- days_overdue),
           t_ease_factor = 2.5,
           t_difficulty = [''easy'', ''medium'', ''hard''] ! nat (i mod 3),
           t_last_performance = max 0.4 (0.9 - real_of_int i * 0.1) \<rparr>)"

definition create_sample_review_data :: "datetime \<Rightarrow> string list response \<Rightarrow> review_topic list" where
  "create_sample_review_data now topics_query =
     (let user_topics = rows_of topics_query;
          sample_topics = (if user_topics \<noteq> [] then user_topics
                           else [''Mathematics'', ''Physics'', ''Chemistry'', ''Biology'', ''History''])
      in take 3 (map (sample_topic now) (enumerate 0 sample_topics)))"

definition due_topic :: "datetime \<Rightarrow> sr_data \<Rightarrow> review_topic option" where
  \<comment> \<open>the filter \<open>next_review <= now\<close> and the body of the loop over the rows that pass it\<close>
  "due_topic now d =
     (case next_review d of
        None \<Rightarrow> None
      | Some next_review_date \<Rightarrow>
          if next_review_date \<le> now then
            (let time_overdue = timedelta_days (now - next_review_date);
                 urgency_score = forgetting_probability d + real_of_int time_overdue * 0.1;
                 urg = (if urgency_score > 0.8 then Critical
                        else if urgency_score > 0.6 then High
                        else if urgency_score > 0.4 then Medium
                        else Low)
             in Some \<lparr> t_topic_name = topic_name d,
                       t_retention_probability = 1 - forgetting_probability d,
                       t_streak = repetitions d,
                       t_last_review = last_review d,
                       t_next_review = next_review_date,
                       t_urgency = urg,
                       t_time_overdue_days = max 0 time_overdue,
                       t_ease_factor = ease_factor d,
                       t_difficulty = (case difficulty d of None \<Rightarrow> ''medium'' | Some s \<Rightarrow> s),
                       t_last_performance =
                         (if performance_history d \<noteq> [] then last (performance_history d)
                          else 0.7) \<rparr>)
          else None)"

definition sort_key_of :: "review_topic \<Rightarrow> int \<times> real" where
  \<comment> \<open>the \<open>key\<close> of \<open>topics.sort\<close>\<close>
  "sort_key_of x = (urgency_rank (t_urgency x), - t_retention_probability x)"

definition get_topics_due_for_review ::
  "datetime \<Rightarrow> sr_data list response \<Rightarrow> string list response \<Rightarrow> review_topic list"
where
  "get_topics_due_for_review now sr_query topics_query =
     (let all_sr_data = rows_of sr_query
      in if all_sr_data = [] then create_sample_review_data now topics_query
         else sort_key sort_key_of (List.map_filter (due_topic now) all_sr_data))"

text \<open>
  The order the specification describes for the list of due topics, for comparison with
  \<open>sort_key_of\<close>: tier, then urgency score descending, then lower retention first. The
  urgency score of an entry is recomputed from the entry (a due row is never early, so
  its \<open>time_overdue_days\<close> is the number of days overdue).
\<close>

definition spec_urgency_score :: "review_topic \<Rightarrow> real" where
  "spec_urgency_score x =
     (1 - t_retention_probability x) + 0.1 * real_of_int (t_time_overdue_days x)"

definition spec_sort_key :: "review_topic \<Rightarrow> int \<times> real \<times> real" where
  "spec_sort_key x = (urgency_rank (t_urgency x), - spec_urgency_score x, t_retention_probability x)"

definition spec_ordered :: "review_topic list \<Rightarrow> bool" where
  "spec_ordered xs = sorted (map spec_sort_key xs)"


section \<open>IntelligentSpacedRepetition (app/services/intelligent\_spaced\_repetition.py)\<close>

text \<open>
  An entry of \<open>performance_history\<close> as this engine writes and reads it: the score, and
  the keys \<open>interval_days\<close> and \<open>ease_factor\<close> that \<open>apply_interval_constraints\<close>
  reads with a default. A stored row of this engine carries the prefix \<open>i_\<close>. Every
  store query of this engine is awaited inside \<open>try\<close>; its answer is a \<open>response\<close>,
  \<open>Failed\<close> when the awaited expression raises (as it does for a query builder of the
  synchronous client that \<open>create_client\<close> returns).
\<close>

record history_entry =
  h_score :: real
  h_interval_days :: "int option"
  h_ease_factor :: "real option"

record isr_row =
  i_interval_days :: int
  i_repetitions :: int
  i_ease_factor :: real
  i_performance_history :: "history_entry list"

definition last_n :: "nat \<Rightarrow> 'a list \<Rightarrow> 'a list" where
  \<comment> \<open>the slice \<open>xs[-n:]\<close>\<close>
  "last_n n xs = drop (length xs - n) xs"

definition apply_interval_constraints :: "real \<Rightarrow> history_entry list \<Rightarrow> real \<Rightarrow> int" where
  "apply_interval_constraints predicted_interval topic_history performance_score =
     (let p1 = (if performance_score \<ge> 90 then predicted_interval * 1.2
                else if performance_score \<ge> 80 then predicted_interval * 1.1
                else if performance_score \<ge> 60 then predicted_interval
                else predicted_interval * 0.8);
          p2 = (if topic_history \<noteq> [] then
                  (let avg_recent = mean (map h_score (last_n 3 topic_history))
                   in if avg_recent > 85 then p1 * 1.1
                      else if avg_recent < 60 then p1 * 0.9
                      else p1)
                else p1)
      in if length topic_history = 0 then 1
         else if length topic_history = 1 then 6
         else if length topic_history < 5 then
           (let last_interval = (case h_interval_days (last topic_history) of
                                   None \<Rightarrow> 1 | Some v \<Rightarrow> v);
                ease = (case h_ease_factor (last topic_history) of
                          None \<Rightarrow> 2.5 | Some v \<Rightarrow> v)
            in max 1 (py_int (real_of_int last_interval * ease)))
         else py_int (max (real_of_int min_interval) (min (real_of_int max_interval) p2)))"

definition calculate_ease_factor :: "history_entry list \<Rightarrow> real" where
  "calculate_ease_factor hist =
     (if length hist < 2 then 2.5
      else (let avg_score = mean (map h_score (last_n 5 hist))
            in if avg_score \<ge> 90 then 2.8
               else if avg_score \<ge> 80 then 2.6
               else if avg_score \<ge> 70 then 2.4
               else if avg_score \<ge> 60 then 2.2
               else 2.0))"

text \<open>
  \<open>update_spaced_repetition_data\<close> runs inside \<open>try\<close>: when the query for the existing
  row raises, the exception is printed and nothing is written. The result is the row
  written, if any.
\<close>

definition update_spaced_repetition_data ::
  "isr_row option response \<Rightarrow> real \<Rightarrow> int \<Rightarrow> isr_row option"
where
  "update_spaced_repetition_data existing_response performance_score ivl =
     (let performance_entry =
            \<lparr> h_score = performance_score, h_interval_days = None, h_ease_factor = None \<rparr>
      in case existing_response of
           Failed \<Rightarrow> None
         | Data (Some row) \<Rightarrow>
             (let existing_history = i_performance_history row @ [performance_entry]
              in Some \<lparr> i_interval_days = ivl,
                        i_repetitions = i_repetitions row + 1,
                        i_ease_factor = calculate_ease_factor existing_history,
                        i_performance_history = existing_history \<rparr>)
         | Data None \<Rightarrow>
             Some \<lparr> i_interval_days = ivl, i_repetitions = 1, i_ease_factor = 2.5,
                    i_performance_history = [performance_entry] \<rparr>)"

text \<open>
  \<open>fallback_supermemo2\<close>. Its local variables \<open>new_interval\<close>, \<open>new_repetitions\<close>
  and \<open>new_ease_factor\<close> are \<open>supermemo2_locals\<close>; the dictionary it returns is built
  from \<open>new_interval\<close> alone, and the function writes nothing to the store.
\<close>

record fallback_result =
  f_interval_days :: int
  f_next_review :: datetime
  f_confidence :: real
  f_ml_prediction :: int
  f_fallback :: bool

definition supermemo2_locals :: "isr_row option \<Rightarrow> real \<Rightarrow> int \<times> int \<times> real" where
  "supermemo2_locals existing performance_score =
     (case existing of
        Some row \<Rightarrow>
          (let current_interval = i_interval_days row;
               current_repetitions = i_repetitions row;
               current_ease_factor = i_ease_factor row
           in if performance_score \<ge> 60 then
                (let new_interval =
                       (if current_repetitions = 0 then 1
                        else if current_repetitions = 1 then 6
                        else py_int (real_of_int current_interval * current_ease_factor))
                 in (new_interval, current_repetitions + 1,
                     max 1.3 (current_ease_factor +
                       (0.1 - (5 - performance_score / 20) *
                          (0.08 + (5 - performance_score / 20) * 0.02)))))
              else (1, 0, max 1.3 (current_ease_factor - 0.2)))
      | None \<Rightarrow> (1, 1, 2.5))"

definition fallback_supermemo2 :: "datetime \<Rightarrow> isr_row option response \<Rightarrow> real \<Rightarrow> fallback_result" where
  "fallback_supermemo2 now existing_response performance_score =
     (case existing_response of
        Data existing \<Rightarrow>
          (let new_interval = fst (supermemo2_locals existing performance_score)
           in \<lparr> f_interval_days = new_interval, f_next_review = now + days new_interval,
                f_confidence = 0.6, f_ml_prediction = new_interval, f_fallback = True \<rparr>)
      | Failed \<Rightarrow>
          \<lparr> f_interval_days = 7, f_next_review = now + days 7,
            f_confidence = 0.5, f_ml_prediction = 7, f_fallback = True \<rparr>)"


section \<open>StudyPlanGenerator (app/services/study\_plan\_generator.py)\<close>

subsection \<open>Data\<close>

text \<open>
  The fields of a \<open>StudyBlock\<close> carry the prefix \<open>b_\<close>, those of a scheduled session
  (the dictionary built in \<open>_optimize_daily_schedule\<close>) the prefix \<open>s_\<close>, those of the
  plan the prefix \<open>p_\<close>. \<open>learning_analytics\<close> holds the three entries of the analytics
  dictionary that plan generation reads.
\<close>

datatype Priority = LOW | MEDIUM | HIGH | CRITICAL

datatype StudySessionType = NEW_CONTENT | REVIEW | PRACTICE | ASSESSMENT

record StudyBlock =
  b_topic :: string
  b_session_type :: StudySessionType
  b_duration_minutes :: int
  b_priority :: Priority
  b_scheduled_time :: datetime
  b_difficulty :: string
  b_estimated_effort :: real
  b_prerequisites :: "string list"
  b_learning_objectives :: "string list"

record UserPreferences =
  daily_study_time :: int
  preferred_session_length :: int
  break_duration :: int
  peak_hours :: "int list"
  difficulty_preference :: string
  learning_style :: string
  max_sessions_per_day :: int

record learning_analytics =
  learning_velocity :: real
  optimal_session_length :: int
  confidence_score :: real

record session =
  s_topic :: string
  s_session_type :: StudySessionType
  s_start_time :: "int \<times> int"
  s_duration_minutes :: int
  s_difficulty :: string
  s_priority :: Priority
  s_learning_objectives :: "string list"
  s_estimated_effort :: real
  s_break_after :: int

record milestone =
  m_day :: int
  m_number :: int
  m_target_percent :: int

record completion_estimate =
  c_overall :: real
  c_on_time :: real
  c_with_extension :: real

record study_plan =
  p_target_date :: datetime
  p_total_study_time_minutes :: int
  p_daily_sessions :: "(int \<times> session list) list"
  p_learning_objectives :: "string list"
  p_progress_milestones :: "milestone list"
  p_adaptive_adjustments :: "(string \<times> string) list"
  p_estimated_completion :: completion_estimate

subsection \<open>Clock arithmetic\<close>

definition microseconds_per_hour :: int where
  "microseconds_per_hour = 3600000000"

definition microseconds_per_minute :: int where
  "microseconds_per_minute = 60000000"

definition minutes :: "int \<Rightarrow> int" where
  \<comment> \<open>\<open>timedelta(minutes=n)\<close>\<close>
  "minutes n = n * microseconds_per_minute"

definition midnight :: "datetime \<Rightarrow> datetime" where
  \<comment> \<open>\<open>replace(hour=0, minute=0, second=0, microsecond=0)\<close>\<close>
  "midnight t = t - t mod microseconds_per_day"

definition hour_of :: "datetime \<Rightarrow> int" where
  "hour_of t = (t mod microseconds_per_day) div microseconds_per_hour"

definition minute_of :: "datetime \<Rightarrow> int" where
  "minute_of t = (t mod microseconds_per_hour) div microseconds_per_minute"

definition replace_hour :: "datetime \<Rightarrow> int \<Rightarrow> exception + datetime" where
  \<comment> \<open>\<open>replace(hour=h)\<close>, which raises unless \<open>h\<close> is an hour of the day\<close>
  "replace_hour t h =
     (if 0 \<le> h \<and> h \<le> 23
      then Inr (t - hour_of t * microseconds_per_hour + h * microseconds_per_hour)
      else Inl ValueError)"

definition replace_hour_sharp :: "datetime \<Rightarrow> int \<Rightarrow> exception + datetime" where
  \<comment> \<open>\<open>replace(hour=h, minute=0, second=0)\<close>: the microseconds stay\<close>
  "replace_hour_sharp t h =
     (if 0 \<le> h \<and> h \<le> 23
      then Inr (midnight t + h * microseconds_per_hour + t mod 1000000)
      else Inl ValueError)"

definition day_key :: "datetime \<Rightarrow> int" where
  \<comment> \<open>\<open>strftime('%Y-%m-%d')\<close>: the calendar day, as a day number\<close>
  "day_key t = t div microseconds_per_day"

subsection \<open>Tables of \<open>__init__\<close> and the helper methods\<close>

definition efficiency_curves :: "(string \<times> (string \<times> real) list) list" where
  "efficiency_curves =
     [(''visual'', [(''morning'', 0.9), (''afternoon'', 0.8), (''evening'', 0.7)]),
      (''auditory'', [(''morning'', 0.8), (''afternoon'', 0.9), (''evening'', 0.8)]),
      (''kinesthetic'', [(''morning'', 0.7), (''afternoon'', 0.9), (''evening'', 0.6)]),
      (''reading'', [(''morning'', 0.9), (''afternoon'', 0.7), (''evening'', 0.8)])]"

definition cognitive_load :: "(string \<times> real) list" where
  "cognitive_load = [(''easy'', 0.3), (''medium'', 0.6), (''hard'', 0.9)]"

definition cognitive_load_of :: "string \<Rightarrow> real" where
  \<comment> \<open>\<open>self.cognitive_load.get(difficulty, 0.5)\<close>\<close>
  "cognitive_load_of d = (case map_of cognitive_load d of None \<Rightarrow> 0.5 | Some v \<Rightarrow> v)"

definition style_efficiency_of :: "string \<Rightarrow> string \<Rightarrow> real" where
  \<comment> \<open>\<open>self.efficiency_curves.get(learning_style, {}).get(time_of_day, 0.7)\<close>\<close>
  "style_efficiency_of style time_of_day =
     (case map_of efficiency_curves style of
        None \<Rightarrow> 0.7
      | Some curve \<Rightarrow> (case map_of curve time_of_day of None \<Rightarrow> 0.7 | Some v \<Rightarrow> v))"

definition get_time_of_day :: "int \<Rightarrow> string" where
  "get_time_of_day hour =
     (if 6 \<le> hour \<and> hour < 12 then ''morning''
      else if 12 \<le> hour \<and> hour < 17 then ''afternoon''
      else ''evening'')"

definition priority_value :: "Priority \<Rightarrow> int" where
  "priority_value p = (case p of LOW \<Rightarrow> 1 | MEDIUM \<Rightarrow> 2 | HIGH \<Rightarrow> 3 | CRITICAL \<Rightarrow> 4)"

definition convert_to_priority_enum :: "real \<Rightarrow> Priority" where
  "convert_to_priority_enum priority_score =
     (if priority_score \<ge> 0.8 then CRITICAL
      else if priority_score \<ge> 0.6 then HIGH
      else if priority_score \<ge> 0.4 then MEDIUM
      else LOW)"

fun contains :: "string \<Rightarrow> string \<Rightarrow> bool" where
  \<comment> \<open>\<open>key in text\<close> on strings: \<open>key\<close> occurs in \<open>text\<close> as a substring\<close>
  "contains key [] = (key = [])"
| "contains key (c # cs) = (take (length key) (c # cs) = key \<or> contains key cs)"

definition difficulty_map :: "(string \<times> real) list" where
  "difficulty_map =
     [(''mathematics'', 0.8), (''physics'', 0.9), (''chemistry'', 0.8), (''biology'', 0.6),
      (''history'', 0.5), (''literature'', 0.6), (''computer science'', 0.8),
      (''programming'', 0.8)]"

definition estimate_topic_difficulty :: "string \<Rightarrow> real" where
  "estimate_topic_difficulty topic =
     (case find (\<lambda>kv. contains (fst kv) (lower topic)) difficulty_map of
        Some kv \<Rightarrow> snd kv
      | None \<Rightarrow> 0.6)"

definition get_topic_difficulty :: "string \<Rightarrow> string" where
  "get_topic_difficulty topic =
     (let difficulty_score = estimate_topic_difficulty topic
      in if difficulty_score \<ge> 0.7 then ''hard''
         else if difficulty_score \<ge> 0.5 then ''medium''
         else ''easy'')"

definition determine_session_type :: "string \<Rightarrow> int \<Rightarrow> StudySessionType" where
  "determine_session_type topic day =
     (if day = 0 then NEW_CONTENT
      else if day mod 3 = 0 then REVIEW
      else if day mod 5 = 0 then ASSESSMENT
      else PRACTICE)"

definition calculate_optimal_duration :: "string \<Rightarrow> learning_analytics \<Rightarrow> int" where
  \<comment> \<open>the multiplier looked up is always the one of \<open>'medium'\<close>\<close>
  "calculate_optimal_duration topic analytics =
     py_int (real_of_int (optimal_session_length analytics) * 1.0)"

definition calculate_effort_score :: "string \<Rightarrow> int \<Rightarrow> real" where
  "calculate_effort_score topic duration = real_of_int duration / 60"

definition get_topic_prerequisites :: "string \<Rightarrow> string list" where
  "get_topic_prerequisites topic = []"

definition get_topic_objectives :: "string \<Rightarrow> string list" where
  "get_topic_objectives topic =
     [''Master '' @ topic @ '' fundamentals'', ''Apply '' @ topic @ '' concepts'']"

subsection \<open>\<open>_prioritize_topics\<close>\<close>

text \<open>
  \<open>quiz_query\<close> is the answer of the store to the query for the user's quiz results, rows
  of topic name and score. The first factor of the source, the days overdue of the topic
  in the spaced-repetition schedule, never contributes: the schedule fetched is a list of
  rows (or an empty dictionary), so the test \<open>topic in spaced_rep_data\<close> on a topic name
  is false. The prerequisites check returns \<open>True\<close>.
\<close>

definition get_topic_performance :: "(string \<times> real) list response \<Rightarrow> string \<Rightarrow> real" where
  "get_topic_performance quiz_query topic =
     (case quiz_query of
        Failed \<Rightarrow> 0.5
      | Data quiz_results \<Rightarrow>
          (let topic_scores = map snd (filter (\<lambda>r. lower (fst r) = lower topic) quiz_results)
           in if topic_scores \<noteq> [] then mean topic_scores / 100 else 0.5))"

definition priority_score_of ::
  "learning_analytics \<Rightarrow> (string \<times> real) list response \<Rightarrow> string \<Rightarrow> real"
where
  \<comment> \<open>the body of the loop over \<open>topics\<close>\<close>
  "priority_score_of analytics quiz_query topic =
     (let topic_performance = get_topic_performance quiz_query topic;
          s2 = (if topic_performance < 0.7 then 0.0 + (0.7 - topic_performance) * 0.5 else 0.0);
          topic_difficulty = estimate_topic_difficulty topic;
          user_level = confidence_score analytics;
          difficulty_gap = \<bar>topic_difficulty - user_level\<bar>;
          s3 = (if difficulty_gap < 0.2 then s2 + 0.3 else s2)
      in s3 + 0.2)"

definition prioritize_topics ::
  "string list \<Rightarrow> learning_analytics \<Rightarrow> (string \<times> real) list response \<Rightarrow> (string \<times> real) list"
where
  \<comment> \<open>\<open>sorted(..., key=lambda x: x[1], reverse=True)\<close>: descending, equal scores keep their order\<close>
  "prioritize_topics topics analytics quiz_query =
     rev (sort_key snd (rev (map (\<lambda>topic. (topic, priority_score_of analytics quiz_query topic))
                              topics)))"

subsection \<open>\<open>_generate_study_blocks\<close>\<close>

definition session_duration_for :: "UserPreferences \<Rightarrow> learning_analytics \<Rightarrow> string \<Rightarrow> int \<Rightarrow> int" where
  \<comment> \<open>\<open>min(preferred_session_length, remaining_time, optimal duration)\<close>\<close>
  "session_duration_for preferences analytics topic remaining_time =
     min (preferred_session_length preferences)
         (min remaining_time (calculate_optimal_duration topic analytics))"

definition make_block :: "int \<Rightarrow> datetime \<Rightarrow> string \<Rightarrow> real \<Rightarrow> int \<Rightarrow> StudyBlock" where
  "make_block day day_date topic priority session_duration =
     \<lparr> b_topic = topic,
       b_session_type = determine_session_type topic day,
       b_duration_minutes = session_duration,
       b_priority = convert_to_priority_enum priority,
       b_scheduled_time = day_date,
       b_difficulty = get_topic_difficulty topic,
       b_estimated_effort = calculate_effort_score topic session_duration,
       b_prerequisites = get_topic_prerequisites topic,
       b_learning_objectives = get_topic_objectives topic \<rparr>"

text \<open>
  The inner loop over the prioritised topics for one day, with its two counters; the
  result is \<open>daily_blocks\<close>.
\<close>

fun daily_loop ::
  "UserPreferences \<Rightarrow> learning_analytics \<Rightarrow> int \<Rightarrow> datetime \<Rightarrow> (string \<times> real) list \<Rightarrow>
   int \<Rightarrow> int \<Rightarrow> StudyBlock list"
where
  "daily_loop preferences analytics day day_date [] remaining_time session_count = []"
| "daily_loop preferences analytics day day_date (tp # rest) remaining_time session_count =
     (if remaining_time \<le> 0 \<or> session_count \<ge> max_sessions_per_day preferences then []
      else if session_duration_for preferences analytics (fst tp) remaining_time < 10
      then daily_loop preferences analytics day day_date rest remaining_time session_count
      else make_block day day_date (fst tp) (snd tp)
             (session_duration_for preferences analytics (fst tp) remaining_time)
           # daily_loop preferences analytics day day_date rest
               (remaining_time -
                  (session_duration_for preferences analytics (fst tp) remaining_time
                   + break_duration preferences))
               (session_count + 1))"

definition daily_blocks ::
  "datetime \<Rightarrow> (string \<times> real) list \<Rightarrow> UserPreferences \<Rightarrow> learning_analytics \<Rightarrow> int \<Rightarrow> StudyBlock list"
where
  \<comment> \<open>the body of the loop over \<open>range(available_days)\<close>\<close>
  "daily_blocks now prioritized_topics preferences analytics day =
     daily_loop preferences analytics day (midnight now + days day) prioritized_topics
       (daily_study_time preferences) 0"

definition generate_study_blocks ::
  "datetime \<Rightarrow> (string \<times> real) list \<Rightarrow> UserPreferences \<Rightarrow> int \<Rightarrow> learning_analytics \<Rightarrow> StudyBlock list"
where
  "generate_study_blocks now prioritized_topics preferences available_days analytics =
     concat (map (\<lambda>day. daily_blocks now prioritized_topics preferences analytics (int day))
                 [0..<nat available_days])"

subsection \<open>\<open>_optimize_schedule\<close>\<close>

fun search_peak_hours :: "datetime \<Rightarrow> string \<Rightarrow> real \<Rightarrow> int list \<Rightarrow> exception + datetime option" where
  \<comment> \<open>the loop over \<open>preferences.peak_hours\<close>; \<open>None\<close> when it ends without a \<open>return\<close>\<close>
  "search_peak_hours start_time style style_efficiency [] = Inr None"
| "search_peak_hours start_time style style_efficiency (peak_hour # rest) =
     (case replace_hour start_time peak_hour of
        Inl e \<Rightarrow> Inl e
      | Inr peak_time \<Rightarrow>
          if style_efficiency_of style (get_time_of_day peak_hour) > style_efficiency
          then Inr (Some peak_time)
          else search_peak_hours start_time style style_efficiency rest)"

definition find_optimal_time_slot ::
  "datetime \<Rightarrow> StudyBlock \<Rightarrow> UserPreferences \<Rightarrow> exception + datetime"
where
  "find_optimal_time_slot start_time block preferences =
     (let hour = hour_of start_time;
          time_of_day = get_time_of_day hour;
          style_efficiency = style_efficiency_of (learning_style preferences) time_of_day;
          load = cognitive_load_of (b_difficulty block)
      in if load > 0.7 \<and> style_efficiency < 0.8 then
           (case search_peak_hours start_time (learning_style preferences) style_efficiency
                   (peak_hours preferences) of
              Inl e \<Rightarrow> Inl e
            | Inr (Some peak_time) \<Rightarrow> Inr peak_time
            | Inr None \<Rightarrow> Inr start_time)
         else Inr start_time)"

definition make_session :: "StudyBlock \<Rightarrow> datetime \<Rightarrow> UserPreferences \<Rightarrow> session" where
  "make_session block optimal_time preferences =
     \<lparr> s_topic = b_topic block,
       s_session_type = b_session_type block,
       s_start_time = (hour_of optimal_time, minute_of optimal_time),
       s_duration_minutes = b_duration_minutes block,
       s_difficulty = b_difficulty block,
       s_priority = b_priority block,
       s_learning_objectives = b_learning_objectives block,
       s_estimated_effort = b_estimated_effort block,
       s_break_after = break_duration preferences \<rparr>"

fun place_sessions :: "UserPreferences \<Rightarrow> datetime \<Rightarrow> StudyBlock list \<Rightarrow> exception + session list" where
  \<comment> \<open>the loop over \<open>sorted_blocks\<close>, threading \<open>current_time\<close>\<close>
  "place_sessions preferences current_time [] = Inr []"
| "place_sessions preferences current_time (block # rest) =
     (case find_optimal_time_slot current_time block preferences of
        Inl e \<Rightarrow> Inl e
      | Inr optimal_time \<Rightarrow>
          (case place_sessions preferences
                  (optimal_time + minutes (b_duration_minutes block + break_duration preferences))
                  rest of
             Inl e \<Rightarrow> Inl e
           | Inr sessions \<Rightarrow> Inr (make_session block optimal_time preferences # sessions)))"

definition block_sort_key :: "StudyBlock \<Rightarrow> int \<times> real" where
  "block_sort_key b = (- priority_value (b_priority b), cognitive_load_of (b_difficulty b))"

definition optimize_daily_schedule ::
  "datetime \<Rightarrow> StudyBlock list \<Rightarrow> UserPreferences \<Rightarrow> exception + session list"
where
  "optimize_daily_schedule now blocks preferences =
     (let sorted_blocks = sort_key block_sort_key blocks
      in case py_index (peak_hours preferences) 0 of
           Inl e \<Rightarrow> Inl e
         | Inr first_peak \<Rightarrow>
             (case replace_hour_sharp now first_peak of
                Inl e \<Rightarrow> Inl e
              | Inr current_time \<Rightarrow> place_sessions preferences current_time sorted_blocks))"

fun add_to_day :: "int \<Rightarrow> StudyBlock \<Rightarrow> (int \<times> StudyBlock list) list \<Rightarrow> (int \<times> StudyBlock list) list" where
  \<comment> \<open>\<open>blocks_by_day[day_key].append(block)\<close>, a new key going to the end of the dictionary\<close>
  "add_to_day k b [] = [(k, [b])]"
| "add_to_day k b (kv # rest) =
     (if fst kv = k then (fst kv, snd kv @ [b]) # rest else kv # add_to_day k b rest)"

definition blocks_by_day :: "StudyBlock list \<Rightarrow> (int \<times> StudyBlock list) list" where
  "blocks_by_day study_blocks =
     foldl (\<lambda>m block. add_to_day (day_key (b_scheduled_time block)) block m) [] study_blocks"

fun optimize_days ::
  "datetime \<Rightarrow> UserPreferences \<Rightarrow> (int \<times> StudyBlock list) list \<Rightarrow> exception + (int \<times> session list) list"
where
  \<comment> \<open>the loop over \<open>blocks_by_day.items()\<close>\<close>
  "optimize_days now preferences [] = Inr []"
| "optimize_days now preferences (kv # rest) =
     (case optimize_daily_schedule now (snd kv) preferences of
        Inl e \<Rightarrow> Inl e
      | Inr optimized_day \<Rightarrow>
          (case optimize_days now preferences rest of
             Inl e \<Rightarrow> Inl e
           | Inr schedule \<Rightarrow> Inr ((fst kv, optimized_day) # schedule)))"

definition optimize_schedule ::
  "datetime \<Rightarrow> StudyBlock list \<Rightarrow> UserPreferences \<Rightarrow> exception + (int \<times> session list) list"
where
  "optimize_schedule now study_blocks preferences =
     optimize_days now preferences (blocks_by_day study_blocks)"

subsection \<open>\<open>generate_personalized_study_plan\<close> and the endpoint \<open>generate_study_plan\<close>\<close>

text \<open>
  The target date arrives parsed: \<open>datetime.fromisoformat\<close> gives a naive datetime, or
  an aware one when the text carries an offset, and subtracting the naive clock from an
  aware datetime raises. Preferences and analytics are passed as resolved by
  \<open>_get_user_preferences\<close> and \<open>_analyze_learning_patterns\<close>.
\<close>

datatype parsed_date = Naive datetime | Aware datetime

definition available_days_until :: "parsed_date \<Rightarrow> datetime \<Rightarrow> exception + int" where
  \<comment> \<open>\<open>(target_date - datetime.now()).days\<close>\<close>
  "available_days_until target_date now =
     (case target_date of
        Naive t \<Rightarrow> Inr (timedelta_days (t - now))
      | Aware t \<Rightarrow> Inl TypeError)"

definition date_value :: "parsed_date \<Rightarrow> datetime" where
  "date_value d = (case d of Naive t \<Rightarrow> t | Aware t \<Rightarrow> t)"

definition generate_milestones :: "string list \<Rightarrow> int \<Rightarrow> milestone list" where
  "generate_milestones topics ds =
     (let milestone_interval = max 1 (ds div 4)
      in map (\<lambda>i. \<lparr> m_day = (i + 1) * milestone_interval, m_number = i + 1,
                     m_target_percent = (i + 1) * 25 \<rparr>) [0, 1, 2, 3])"

definition generate_adaptive_rules :: "(string \<times> string) list" where
  "generate_adaptive_rules =
     [(''performance_drop_below_70'', ''reduce_difficulty''),
      (''streak_above_5_days'', ''increase_challenge''),
      (''session_incomplete'', ''adjust_duration'')]"

definition estimate_completion_probability ::
  "UserPreferences \<Rightarrow> learning_analytics \<Rightarrow> completion_estimate"
where
  "estimate_completion_probability preferences analytics =
     (let user_velocity = learning_velocity analytics;
          consistency_score = confidence_score analytics;
          time_availability = min 1.0 (real_of_int (daily_study_time preferences) / 180);
          completion_prob = user_velocity * 0.4 + consistency_score * 0.3 + time_availability * 0.3
      in \<lparr> c_overall = completion_prob, c_on_time = completion_prob * 0.8,
           c_with_extension = min 1.0 (completion_prob * 1.2) \<rparr>)"

definition generate_personalized_study_plan ::
  "datetime \<Rightarrow> (string \<times> real) list response \<Rightarrow> learning_analytics \<Rightarrow>
   string list \<Rightarrow> parsed_date \<Rightarrow> UserPreferences \<Rightarrow> exception + study_plan"
where
  "generate_personalized_study_plan now quiz_query learning_analytics topics target_date preferences =
     (case available_days_until target_date now of
        Inl e \<Rightarrow> Inl e
      | Inr available_days \<Rightarrow>
          (let total_study_time = available_days * daily_study_time preferences;
               prioritized_topics = prioritize_topics topics learning_analytics quiz_query;
               study_blocks = generate_study_blocks now prioritized_topics preferences
                                available_days learning_analytics
           in case optimize_schedule now study_blocks preferences of
                Inl e \<Rightarrow> Inl e
              | Inr optimized_schedule \<Rightarrow>
                  Inr \<lparr> p_target_date = date_value target_date,
                        p_total_study_time_minutes = total_study_time,
                        p_daily_sessions = optimized_schedule,
                        p_learning_objectives = concat (map get_topic_objectives topics),
                        p_progress_milestones = generate_milestones topics available_days,
                        p_adaptive_adjustments = generate_adaptive_rules,
                        p_estimated_completion =
                          estimate_completion_probability preferences learning_analytics \<rparr>))"

text \<open>
  The endpoint builds the preferences from the request and turns every exception into
  the response \<open>500\<close>.
\<close>

record StudyPlanRequest =
  q_topics :: "string list"
  q_target_date :: parsed_date
  q_daily_study_time :: int
  q_preferred_session_length :: int
  q_difficulty_preference :: string

datatype http_error = HTTP_500

definition request_preferences :: "StudyPlanRequest \<Rightarrow> UserPreferences" where
  "request_preferences request =
     \<lparr> daily_study_time = q_daily_study_time request,
       preferred_session_length = q_preferred_session_length request,
       break_duration = 5,
       peak_hours = [9, 10, 11, 14, 15, 16],
       difficulty_preference = q_difficulty_preference request,
       learning_style = ''visual'',
       max_sessions_per_day = 6 \<rparr>"

definition generate_study_plan ::
  "datetime \<Rightarrow> (string \<times> real) list response \<Rightarrow> learning_analytics \<Rightarrow> StudyPlanRequest \<Rightarrow>
   http_error + study_plan"
where
  "generate_study_plan now quiz_query learning_analytics request =
     (case generate_personalized_study_plan now quiz_query learning_analytics (q_topics request)
             (q_target_date request) (request_preferences request) of
        Inl e \<Rightarrow> Inl HTTP_500
      | Inr study_plan \<Rightarrow> Inr study_plan)"

text \<open>
  The minutes a day of the plan takes: the durations of its sessions and a break between
  every two consecutive sessions.
\<close>

definition scheduled_minutes :: "int \<Rightarrow> session list \<Rightarrow> int" where
  "scheduled_minutes break_minutes sessions =
     sum_list (map s_duration_minutes sessions) + int (length sessions - 1) * break_minutes"


section \<open>The synthetic-data simulation (generate\_data.py)\<close>

text \<open>
  The recall probability of one simulated review event: the strength is computed from
  the repetitions, the ease factor, the user's memory strength and the topic's base
  difficulty, and the strength itself is floored at \<open>0.1\<close>.
\<close>

definition strength_S :: "int \<Rightarrow> real \<Rightarrow> real \<Rightarrow> real \<Rightarrow> real" where
  "strength_S reps ease memory_strength base_difficulty =
     (real_of_int reps + 1) * ease * memory_strength / base_difficulty"

definition prob_recall :: "int \<Rightarrow> real \<Rightarrow> real" where
  "prob_recall days_since_last_review S = exp (- real_of_int days_since_last_review / max 0.1 S)"


section \<open>The memory-decay model as the specification words it\<close>

text \<open>
  For comparison with \<open>retention\<close>: retention is \<open>exp (- t / S)\<close>, the strength \<open>S\<close> is
  (repetitions + 1) times ease factor times user memory coefficient, divided by the topic
  difficulty, the difficulty floored at \<open>0.1\<close>.
\<close>

definition spec_strength :: "int \<Rightarrow> real \<Rightarrow> real \<Rightarrow> real \<Rightarrow> real" where
  "spec_strength reps ease user_memory_coefficient topic_difficulty =
     (real_of_int reps + 1) * ease * user_memory_coefficient / max 0.1 topic_difficulty"

definition spec_retention :: "real \<Rightarrow> real \<Rightarrow> real" where
  "spec_retention t S = exp (- t / S)"


section \<open>Scenarios\<close>

text \<open>A stored row of each engine with a repetition count of three.\<close>

definition sr_row_three_reviews :: sr_data where
  "sr_row_three_reviews =
     \<lparr> topic_name = ''Algebra'', interval_days = 3, repetitions = 3, ease_factor = 2.5,
       last_review = 0, next_review = Some (days 7), performance_history = [85, 85, 85],
       forgetting_probability = 0, difficulty = None \<rparr>"


definition isr_row_three_reviews :: isr_row where
  "isr_row_three_reviews =
     \<lparr> i_interval_days = 2, i_repetitions = 3, i_ease_factor = 2.6,
       i_performance_history =
         [\<lparr> h_score = 85, h_interval_days = None, h_ease_factor = None \<rparr>,
          \<lparr> h_score = 85, h_interval_days = None, h_ease_factor = None \<rparr>,
          \<lparr> h_score = 85, h_interval_days = None, h_ease_factor = None \<rparr>] \<rparr>"

text \<open>
  Two critical rows due at day 10, neither overdue by a whole day, and two rows with
  forgetting probability 0 that are nine and ten days overdue at day 10.
\<close>

definition row_a :: sr_data where
  "row_a =
     \<lparr> topic_name = ''A'', interval_days = 2, repetitions = 3, ease_factor = 2.5,
       last_review = 0, next_review = Some (days 10), performance_history = [90],
       forgetting_probability = 0.9, difficulty = None \<rparr>"

definition row_b :: sr_data where
  "row_b =
     \<lparr> topic_name = ''B'', interval_days = 2, repetitions = 3, ease_factor = 2.5,
       last_review = 0, next_review = Some (days 10), performance_history = [90],
       forgetting_probability = 0.85, difficulty = None \<rparr>"

definition row_c :: sr_data where
  "row_c =
     \<lparr> topic_name = ''C'', interval_days = 1, repetitions = 1, ease_factor = 2.3,
       last_review = days 0, next_review = Some (days 1), performance_history = [30],
       forgetting_probability = 0, difficulty = None \<rparr>"

definition row_d :: sr_data where
  "row_d =
     \<lparr> topic_name = ''D'', interval_days = 1, repetitions = 1, ease_factor = 2.3,
       last_review = days (- 1), next_review = Some (days 0), performance_history = [30],
       forgetting_probability = 0, difficulty = None \<rparr>"

text \<open>
  A plan for Algebra and Physics, one day ahead, forty minutes a day, with the default
  analytics of a new user and the preferences the endpoint fills in.
\<close>

definition example_analytics :: learning_analytics where
  "example_analytics =
     \<lparr> learning_velocity = 0.7, optimal_session_length = 25, confidence_score = 0.5 \<rparr>"

definition example_preferences :: UserPreferences where
  "example_preferences =
     \<lparr> daily_study_time = 40, preferred_session_length = 25, break_duration = 5,
       peak_hours = [9, 10, 11, 14, 15, 16], difficulty_preference = ''medium'',
       learning_style = ''visual'', max_sessions_per_day = 6 \<rparr>"

definition example_day :: "int \<times> session list" where
  "example_day =
     (0, [\<lparr> s_topic = ''Algebra'', s_session_type = NEW_CONTENT, s_start_time = (9, 0),
            s_duration_minutes = 25, s_difficulty = ''medium'', s_priority = HIGH,
            s_learning_objectives = [''Master Algebra fundamentals'', ''Apply Algebra concepts''],
            s_estimated_effort = 5 / 12, s_break_after = 5 \<rparr>,
          \<lparr> s_topic = ''Physics'', s_session_type = NEW_CONTENT, s_start_time = (9, 30),
            s_duration_minutes = 10, s_difficulty = ''hard'', s_priority = LOW,
            s_learning_objectives = [''Master Physics fundamentals'', ''Apply Physics concepts''],
            s_estimated_effort = 1 / 6, s_break_after = 5 \<rparr>])"

definition example_plan :: study_plan where
  "example_plan =
     \<lparr> p_target_date = days 1, p_total_study_time_minutes = 40,
       p_daily_sessions = [example_day],
       p_learning_objectives =
         [''Master Algebra fundamentals'', ''Apply Algebra concepts'',
          ''Master Physics fundamentals'', ''Apply Physics concepts''],
       p_progress_milestones =
         [\<lparr> m_day = 1, m_number = 1, m_target_percent = 25 \<rparr>,
          \<lparr> m_day = 2, m_number = 2, m_target_percent = 50 \<rparr>,
          \<lparr> m_day = 3, m_number = 3, m_target_percent = 75 \<rparr>,
          \<lparr> m_day = 4, m_number = 4, m_target_percent = 100 \<rparr>],
       p_adaptive_adjustments = generate_adaptive_rules,
       p_estimated_completion =
         estimate_completion_probability example_preferences example_analytics \<rparr>"

text \<open>A request made on day 5 for a plan up to day 2.\<close>

definition past_request :: StudyPlanRequest where
  "past_request =
     \<lparr> q_topics = [''Algebra'', ''Physics''], q_target_date = Naive (days 2),
       q_daily_study_time = 120, q_preferred_session_length = 25,
       q_difficulty_preference = ''medium'' \<rparr>"


section \<open>Invariant of the grouping by day\<close>

definition groups_ok :: "(int \<times> StudyBlock list) list \<Rightarrow> StudyBlock list \<Rightarrow> bool" where
  "groups_ok m xs \<longleftrightarrow>
     distinct (map fst m) \<and>
     fst ` set m = (\<lambda>b. day_key (b_scheduled_time b)) ` set xs \<and>
     (\<forall>kv \<in> set m. snd kv = filter (\<lambda>b. day_key (b_scheduled_time b) = fst kv) xs)"


section \<open>Properties of review submission\<close>

lemma update_ease_factor_floor_below_60:
  "performance < 0.6 \<Longrightarrow> 1.3 \<le> update_ease_factor current_ease performance"
  by (simp add: update_ease_factor_def)

lemma update_ease_factor_no_floor:
  "update_ease_factor 1.3 0.7 < 1.3"
  by (simp add: update_ease_factor_def)

lemma fallback_supermemo2_first_review:
  "f_interval_days (fallback_supermemo2 now (Data None) performance_score) = 1"
  "f_interval_days (fallback_supermemo2 now Failed performance_score) = 7"
  by (simp_all add: fallback_supermemo2_def supermemo2_locals_def)

text \<open>
  Claim C1: for every review submission with a score of at least 0 the result has an ease
  factor of at least 1.3 and an interval of 1 to 365 days. \<open>calculate_next_review\<close>
  returns no result at all: for every clock, stored row, topic, score and difficulty tag
  its first statement raises \<open>NameError\<close>, because the module never binds the name
  \<open>db_service\<close> that the statement reads.
\<close>

theorem review_submission_raises:
  "calculate_next_review now found topic performance_score tag = Inl NameError"
  by (simp add: calculate_next_review_def module_globals_def)

text \<open>
  Claim C2: a first review of a topic, with no stored row, gets the interval 1 whatever
  the score. \<open>apply_interval_constraints\<close> returns 1 for an empty history, whatever the
  prediction and the score; \<open>calculate_next_review\<close> raises \<open>NameError\<close> on a first
  review and computes no interval.
\<close>

theorem first_review_raises:
  "calculate_next_review now None topic performance_score tag = Inl NameError
   \<and> apply_interval_constraints predicted_interval [] performance_score = 1"
  by (simp add: calculate_next_review_def module_globals_def apply_interval_constraints_def)

text \<open>
  Claim C3: a review of a topic with exactly one prior review and a score of at least 60
  gets the interval 6. \<open>apply_interval_constraints\<close> returns 6 for a history of one
  entry, whatever the prediction and the score; \<open>calculate_next_review\<close> raises
  \<open>NameError\<close> whatever row is stored and computes no interval.
\<close>

theorem second_review_raises:
  "calculate_next_review now (Some row) topic performance_score tag = Inl NameError
   \<and> apply_interval_constraints predicted_interval [entry] performance_score = 6"
  by (simp add: calculate_next_review_def module_globals_def apply_interval_constraints_def)

text \<open>
  Claim C7: a review with a score below 60 resets the stored repetition count to 0. No
  path stores a reset. With score 40 on a topic whose stored count is 3:
  \<open>calculate_next_review\<close> raises before it reaches \<open>upsert\<close>;
  \<open>update_spaced_repetition_data\<close> writes nothing when its query raises and writes the
  count 4 when the query answers; \<open>fallback_supermemo2\<close> computes \<open>new_repetitions = 0\<close>
  when its query answers, but has no statement that writes, and returns a dictionary
  without the count.
\<close>

theorem repetitions_not_reset:
  "calculate_next_review 0 (Some sr_row_three_reviews) ''Algebra'' 40 ''medium'' = Inl NameError
   \<and> update_spaced_repetition_data Failed 40 1 = None
   \<and> map_option i_repetitions
        (update_spaced_repetition_data (Data (Some isr_row_three_reviews)) 40 1) = Some 4
   \<and> fst (snd (supermemo2_locals (Some isr_row_three_reviews) 40)) = 0
   \<and> fallback_supermemo2 0 (Data (Some isr_row_three_reviews)) 40 =
       \<lparr> f_interval_days = 1, f_next_review = days 1, f_confidence = 0.6,
         f_ml_prediction = 1, f_fallback = True \<rparr>
   \<and> fallback_supermemo2 0 Failed 40 =
       \<lparr> f_interval_days = 7, f_next_review = days 7, f_confidence = 0.5,
         f_ml_prediction = 7, f_fallback = True \<rparr>"
  by (simp add: calculate_next_review_def module_globals_def update_spaced_repetition_data_def
      isr_row_three_reviews_def supermemo2_locals_def fallback_supermemo2_def Let_def)


section \<open>Properties of the memory-decay computation\<close>


lemma prob_recall_spec:
  "0.1 \<le> base_difficulty \<Longrightarrow> 0.1 \<le> strength_S reps ease memory_strength base_difficulty \<Longrightarrow>
   prob_recall t (strength_S reps ease memory_strength base_difficulty) =
   spec_retention (real_of_int t) (spec_strength reps ease memory_strength base_difficulty)"
  by (simp add: prob_recall_def spec_retention_def spec_strength_def strength_S_def max_def)

text \<open>
  Claim C6, as stated, fails: the retention computed one day after a review with interval 1
  is \<open>exp (- 2)\<close>, while the formula of the claim for a row with no repetitions and ease
  factor 2.5 (coefficient and difficulty 1) gives \<open>exp (- 1 / 2.5)\<close>. The engine's
  computation reads neither repetitions nor ease factor.
\<close>

theorem retention_not_spec_formula:
  "retention (days 1) 0 1 \<noteq> spec_retention 1 (spec_strength 0 2.5 1 1)"
  by (simp add: retention_def spec_retention_def spec_strength_def days_def timedelta_days_def
      microseconds_per_day_def)

text \<open>
  Claim C6, amended: with \<open>t\<close> the whole days elapsed since the last review, the
  retention is \<open>exp (- t / S)\<close> with strength \<open>S = interval_days * interval_days / 2\<close>
  when the interval is positive, and 0 otherwise; the forgetting probability is
  \<open>max 0 (1 - retention)\<close>, which is \<open>1 - retention\<close> when the last review is not in
  the future.
\<close>

theorem retention_formula: "retention now lr ivl =
    (if 0 < ivl then exp (- real_of_int (timedelta_days (now - lr)) / (real_of_int (ivl * ivl) / 2)) else 0)
  \<and> calculate_forgetting_probability now lr ivl =
    (if lr \<le> now then 1 - retention now lr ivl else max 0 (1 - retention now lr ivl))"
proof -
  have r: "retention now lr ivl =
    (if 0 < ivl then exp (- real_of_int (timedelta_days (now - lr)) / (real_of_int (ivl * ivl) / 2)) else 0)"
    by (simp add: retention_def Let_def field_simps)
  have "retention now lr ivl \<le> 1" if "lr \<le> now"
  proof (cases "0 < ivl")
    case True
    from that have "0 \<le> timedelta_days (now - lr)"
      by (simp add: timedelta_days_def microseconds_per_day_def pos_imp_zdiv_nonneg_iff)
    with True show ?thesis unfolding r by simp
  next
    case False
    then show ?thesis unfolding r by simp
  qed
  then show ?thesis using r by (simp add: calculate_forgetting_probability_def)
qed





section \<open>Properties of the list of due topics\<close>

lemma sample_topic_early:
  assumes "fst p < 3"
  shows "t_urgency (sample_topic now p) = Medium"
    and "0.3 \<le> t_retention_probability (sample_topic now p)"
    and "t_retention_probability (sample_topic now p) \<le> 0.9"
    and "t_next_review (sample_topic now p) \<le> now"
    and "t_topic_name (sample_topic now p) = snd p"
  using assms
  by (simp_all add: sample_topic_def Let_def days_def microseconds_per_day_def mult_le_0_iff)

lemma set_take_enumerate:
  "p \<in> set (take n (enumerate 0 xs)) \<Longrightarrow> fst p < n"
  by (auto simp: in_set_conv_nth nth_enumerate_eq)

lemma create_sample_review_data_entries:
  assumes "t \<in> set (create_sample_review_data now topics_query)"
  shows "t_urgency t = Medium \<and> 0.3 \<le> t_retention_probability t
       \<and> t_retention_probability t \<le> 0.9 \<and> t_next_review t \<le> now"
proof -
  from assms obtain p xs where "t = sample_topic now p" and "p \<in> set (take 3 (enumerate 0 xs))"
    by (auto simp: create_sample_review_data_def Let_def take_map)
  then show ?thesis
    using sample_topic_early [of p now] set_take_enumerate [of p 3 xs] by simp
qed

lemma create_sample_review_data_length:
  "length (create_sample_review_data now topics_query) =
     min 3 (length (if rows_of topics_query \<noteq> [] then rows_of topics_query
                    else [''Mathematics'', ''Physics'', ''Chemistry'', ''Biology'', ''History'']))"
  by (simp add: create_sample_review_data_def Let_def min.commute)

lemma create_sample_review_data_names:
  "map t_topic_name (create_sample_review_data now topics_query) =
     take 3 (if rows_of topics_query \<noteq> [] then rows_of topics_query
                    else [''Mathematics'', ''Physics'', ''Chemistry'', ''Biology'', ''History''])"
proof -
  have "t_topic_name \<circ> sample_topic now = snd"
    by (rule ext) (simp add: sample_topic_def Let_def)
  then have "map t_topic_name (map (sample_topic now) (enumerate 0 xs)) = xs" for xs
    by simp
  then have "map t_topic_name (take 3 (map (sample_topic now) (enumerate 0 xs))) = take 3 xs" for xs
    by (metis take_map)
  then show ?thesis
    by (simp add: create_sample_review_data_def Let_def)
qed

text \<open>
  Claim C10: when the store holds no spaced-repetition row for the user (or the query
  fails), the list of due topics is not empty: it holds the first three, at most, of the
  user's topics, or of the five default subjects when the user has none, each with a
  retention probability between 0.3 and 0.9, the urgency tier medium and a next-review
  time not after the clock.
\<close>

theorem sample_topics_when_no_records:
  assumes "rows_of sr_query = []"
  shows "get_topics_due_for_review now sr_query topics_query \<noteq> []
       \<and> length (get_topics_due_for_review now sr_query topics_query) \<le> 3
       \<and> map t_topic_name (get_topics_due_for_review now sr_query topics_query) =
           take 3 (if rows_of topics_query \<noteq> [] then rows_of topics_query
                   else [''Mathematics'', ''Physics'', ''Chemistry'', ''Biology'', ''History''])
       \<and> (\<forall>t \<in> set (get_topics_due_for_review now sr_query topics_query).
             0.3 \<le> t_retention_probability t \<and> t_retention_probability t \<le> 0.9
           \<and> t_urgency t = Medium \<and> t_next_review t \<le> now)"
proof -
  have eq: "get_topics_due_for_review now sr_query topics_query =
            create_sample_review_data now topics_query"
    using assms by (simp add: get_topics_due_for_review_def)
  have "length (create_sample_review_data now topics_query) \<noteq> 0"
    unfolding create_sample_review_data_length by (simp split: if_splits)
  then have ne: "create_sample_review_data now topics_query \<noteq> []" by simp
  have le: "length (create_sample_review_data now topics_query) \<le> 3"
    unfolding create_sample_review_data_length by simp
  show ?thesis
    unfolding eq using ne le create_sample_review_data_names create_sample_review_data_entries
    by blast
qed

theorem sample_topics_when_no_records_witness:
  "rows_of (Failed :: sr_data list response) = []
   \<and> get_topics_due_for_review 0 Failed (Data [''Algebra'']) \<noteq> []
   \<and> length (get_topics_due_for_review 0 Failed (Data [''Algebra''])) \<le> 3
   \<and> map t_topic_name (get_topics_due_for_review 0 Failed (Data [''Algebra''])) = [''Algebra'']"
  using sample_topics_when_no_records [of Failed 0 "Data [''Algebra'']"]
  by (simp add: rows_of_def)

lemma sorted_map_const:
  "\<forall>x \<in> set xs. f x = c \<Longrightarrow> sorted (map f xs)"
  by (induction xs) auto

lemma sorted_map_fst:
  fixes f :: "'a \<Rightarrow> int \<times> real"
  shows "sorted (map f xs) \<Longrightarrow> sorted (map (fst \<circ> f) xs)"
  by (induction xs) (auto simp: less_eq_prod_def)

lemmas due_defs =
  get_topics_due_for_review_def rows_of_def List.map_filter_def due_topic_def row_a_def
  row_b_def row_c_def row_d_def Let_def timedelta_days_def days_def microseconds_per_day_def sort_key_of_def
  urgency_rank_def

lemma due_topics_example:
  "map t_topic_name (get_topics_due_for_review (days 10) (Data [row_a, row_b]) (Data []))
   = [''B'', ''A'']"
  "map t_topic_name (get_topics_due_for_review (days 10) (Data [row_c, row_d]) (Data []))
   = [''C'', ''D'']"
  "map t_time_overdue_days (get_topics_due_for_review (days 10) (Data [row_c, row_d]) (Data []))
   = [9, 10]"
  "map t_urgency (get_topics_due_for_review (days 10) (Data [row_c, row_d]) (Data []))
   = [Critical, Critical]"
  by (simp_all add: due_defs)

text \<open>
  Claim C5, as stated, fails: of two critical topics due now, the one with forgetting
  probability 0.9 (urgency score 0.9, retention 0.1) comes after the one with forgetting
  probability 0.85 (urgency score 0.85, retention 0.15); and of two critical topics with
  equal retention, the one nine days overdue (urgency score 0.9) stays before the one ten
  days overdue (urgency score 1.0). The sort key is the tier and the negated retention
  probability: the urgency score is not part of it, and within a tier the higher
  retention comes first.
\<close>

theorem due_topics_not_in_spec_order:
  "\<not> spec_ordered (get_topics_due_for_review (days 10) (Data [row_a, row_b]) (Data []))
   \<and> \<not> spec_ordered (get_topics_due_for_review (days 10) (Data [row_c, row_d]) (Data []))"
  by (simp add: due_defs spec_ordered_def spec_sort_key_def spec_urgency_score_def
      less_eq_prod_def)

text \<open>
  Claim C5, amended: for every snapshot of the rows and every clock value the list of due
  topics is sorted by urgency tier in the order critical, high, medium, low; when rows
  exist its entries are those of the rows due. The list is a function of the snapshot
  and the clock, so equal snapshots give equal lists.
\<close>

theorem due_topics_sorted_by_tier:
  "sorted (map (urgency_rank \<circ> t_urgency) (get_topics_due_for_review now sr_query topics_query))
   \<and> (rows_of sr_query \<noteq> [] \<longrightarrow>
        set (get_topics_due_for_review now sr_query topics_query)
          = set (List.map_filter (due_topic now) (rows_of sr_query))
      \<and> length (get_topics_due_for_review now sr_query topics_query)
          = length (List.map_filter (due_topic now) (rows_of sr_query)))"
proof -
  have "sorted (map (urgency_rank \<circ> t_urgency)
                  (get_topics_due_for_review now sr_query topics_query))"
  proof (cases "rows_of sr_query = []")
    case True
    then have "get_topics_due_for_review now sr_query topics_query =
              create_sample_review_data now topics_query"
      by (simp add: get_topics_due_for_review_def)
    moreover have "\<forall>t \<in> set (create_sample_review_data now topics_query).
                     (urgency_rank \<circ> t_urgency) t = urgency_rank Medium"
      using create_sample_review_data_entries by simp
    ultimately show ?thesis
      using sorted_map_const by metis
  next
    case False
    let ?due = "List.map_filter (due_topic now) (rows_of sr_query)"
    have "sorted (map sort_key_of (sort_key sort_key_of ?due))"
      by (rule sorted_sort_key)
    then have "sorted (map (fst \<circ> sort_key_of) (sort_key sort_key_of ?due))"
      by (rule sorted_map_fst)
    moreover have "fst \<circ> sort_key_of = urgency_rank \<circ> t_urgency"
      by (rule ext) (simp add: sort_key_of_def)
    ultimately show ?thesis
      using False by (simp add: get_topics_due_for_review_def Let_def)
  qed
  then show ?thesis
    by (simp add: get_topics_due_for_review_def Let_def)
qed

theorem due_topics_sorted_by_tier_witness:
  "rows_of (Data [row_a, row_b]) \<noteq> []
   \<and> sorted (map (urgency_rank \<circ> t_urgency)
        (get_topics_due_for_review (days 10) (Data [row_a, row_b]) (Data [])))
   \<and> length (get_topics_due_for_review (days 10) (Data [row_a, row_b]) (Data [])) = 2"
  using due_topics_sorted_by_tier [of "days 10" "Data [row_a, row_b]" "Data []"]
  by (simp add: due_defs)


section \<open>Properties of plan generation\<close>

lemma daily_loop_Cons_cases:
  obtains (stop) "daily_loop p a day dd (tp # rest) remaining cnt = []"
  | (skip) "daily_loop p a day dd (tp # rest) remaining cnt =
            daily_loop p a day dd rest remaining cnt"
  | (take) "daily_loop p a day dd (tp # rest) remaining cnt =
            make_block day dd (fst tp) (snd tp) (session_duration_for p a (fst tp) remaining)
            # daily_loop p a day dd rest
                (remaining - (session_duration_for p a (fst tp) remaining + break_duration p))
                (cnt + 1)"
      and "10 \<le> session_duration_for p a (fst tp) remaining"
  by (cases "remaining \<le> 0 \<or> max_sessions_per_day p \<le> cnt";
      cases "session_duration_for p a (fst tp) remaining < 10") simp_all

lemma daily_loop_scheduled_time:
  "b \<in> set (daily_loop p a day dd tps remaining cnt) \<Longrightarrow> b_scheduled_time b = dd"
proof (induction tps arbitrary: remaining cnt)
  case Nil
  then show ?case by simp
next
  case (Cons tp rest)
  show ?case
  proof (cases rule: daily_loop_Cons_cases [of p a day dd tp rest remaining cnt])
    case stop
    with Cons.prems show ?thesis by simp
  next
    case skip
    with Cons show ?thesis by simp
  next
    case take
    with Cons show ?thesis by (auto simp: make_block_def simp del: daily_loop.simps)
  qed
qed

lemma daily_loop_duration_ge_10:
  "b \<in> set (daily_loop p a day dd tps remaining cnt) \<Longrightarrow> 10 \<le> b_duration_minutes b"
proof (induction tps arbitrary: remaining cnt)
  case Nil
  then show ?case by simp
next
  case (Cons tp rest)
  show ?case
  proof (cases rule: daily_loop_Cons_cases [of p a day dd tp rest remaining cnt])
    case stop
    with Cons.prems show ?thesis by simp
  next
    case skip
    with Cons show ?thesis by simp
  next
    case take
    with Cons show ?thesis by (auto simp: make_block_def simp del: daily_loop.simps)
  qed
qed

lemma session_duration_for_le:
  "session_duration_for p a topic remaining \<le> remaining"
  by (simp add: session_duration_for_def)

lemma daily_loop_budget:
  "daily_loop p a day dd tps remaining cnt \<noteq> [] \<Longrightarrow>
   sum_list (map b_duration_minutes (daily_loop p a day dd tps remaining cnt))
     + int (length (daily_loop p a day dd tps remaining cnt) - 1) * break_duration p
   \<le> remaining"
proof (induction tps arbitrary: remaining cnt)
  case Nil
  then show ?case by simp
next
  case (Cons tp rest)
  define d where "d = session_duration_for p a (fst tp) remaining"
  define tl where "tl = daily_loop p a day dd rest (remaining - (d + break_duration p)) (cnt + 1)"
  show ?case
  proof (cases rule: daily_loop_Cons_cases [of p a day dd tp rest remaining cnt])
    case stop
    with Cons.prems show ?thesis by (simp only:) blast
  next
    case skip
    from Cons.prems have "daily_loop p a day dd rest remaining cnt \<noteq> []"
      unfolding skip .
    from Cons.IH [OF this] show ?thesis unfolding skip .
  next
    case take
    then have eq: "daily_loop p a day dd (tp # rest) remaining cnt =
                     make_block day dd (fst tp) (snd tp) d # tl"
      by (simp only: d_def tl_def)
    have dur: "b_duration_minutes (make_block day dd (fst tp) (snd tp) d) = d"
      by (simp add: make_block_def)
    have d: "d \<le> remaining" unfolding d_def by (rule session_duration_for_le)
    show ?thesis
    proof (cases "tl = []")
      case True
      then show ?thesis using d by (simp only: eq) (simp add: dur)
    next
      case False
      then have "0 < length tl" by simp
      then have len: "int (length tl) = int (length tl - 1) + 1" by linarith
      from False have "sum_list (map b_duration_minutes tl) + int (length tl - 1) * break_duration p
                   \<le> remaining - (d + break_duration p)"
        unfolding tl_def by (rule Cons.IH)
      then have "d + sum_list (map b_duration_minutes tl) + int (length tl) * break_duration p
                   \<le> remaining"
        by (simp only: len) (simp add: algebra_simps)
      then show ?thesis by (simp only: eq) (simp add: dur)
    qed
  qed
qed

lemma add_to_day_absent:
  "k \<notin> fst ` set m \<Longrightarrow> add_to_day k b m = m @ [(k, [b])]"
  by (induction m) auto

lemma add_to_day_present:
  "k \<in> fst ` set m \<Longrightarrow> distinct (map fst m) \<Longrightarrow>
   add_to_day k b m = map (\<lambda>kv. if fst kv = k then (fst kv, snd kv @ [b]) else kv) m"
proof (induction m)
  case Nil
  then show ?case by simp
next
  case (Cons e m)
  show ?case
  proof (cases "fst e = k")
    case True
    with Cons.prems have "k \<notin> fst ` set m" by auto
    then have "map (\<lambda>kv. if fst kv = k then (fst kv, snd kv @ [b]) else kv) m = m"
      by (intro map_idI) auto
    with True show ?thesis by simp
  next
    case False
    with Cons show ?thesis by auto
  qed
qed

lemma groups_ok_step:
  assumes "groups_ok m xs"
  shows "groups_ok (add_to_day (day_key (b_scheduled_time b)) b m) (xs @ [b])"
proof -
  define key where "key = (\<lambda>b :: StudyBlock. day_key (b_scheduled_time b))"
  define k where "k = key b"
  from assms have dist: "distinct (map fst m)"
    and keys: "fst ` set m = key ` set xs"
    and grp: "\<And>kv. kv \<in> set m \<Longrightarrow> snd kv = filter (\<lambda>x. key x = fst kv) xs"
    by (simp_all add: groups_ok_def key_def)
  have goal: "groups_ok m' (xs @ [b])"
    if "distinct (map fst m')" and "fst ` set m' = insert k (key ` set xs)"
      and "\<And>kv. kv \<in> set m' \<Longrightarrow> snd kv = filter (\<lambda>x. key x = fst kv) (xs @ [b])" for m'
    using that unfolding groups_ok_def key_def k_def by simp
  show ?thesis
  proof (cases "k \<in> fst ` set m")
    case False
    then have eq: "add_to_day k b m = m @ [(k, [b])]"
      by (rule add_to_day_absent)
    from False have "k \<notin> key ` set xs" unfolding keys .
    then have "\<And>x. x \<in> set xs \<Longrightarrow> key x \<noteq> k" by (metis image_eqI)
    then have empty: "filter (\<lambda>x. key x = k) xs = []"
      by (simp add: filter_empty_conv)
    have 1: "distinct (map fst (m @ [(k, [b])]))"
      using dist False by simp
    have 2: "fst ` set (m @ [(k, [b])]) = insert k (key ` set xs)"
      by (simp add: keys)
    have 3: "snd kv = filter (\<lambda>x. key x = fst kv) (xs @ [b])"
      if "kv \<in> set (m @ [(k, [b])])" for kv
    proof (cases "kv \<in> set m")
      case True
      with False have "fst kv \<noteq> k" by (metis image_eqI)
      then have "key b \<noteq> fst kv" unfolding k_def by simp
      with grp [OF True] show ?thesis by simp
    next
      case False
      with that have "kv = (k, [b])" by simp
      with empty show ?thesis by (simp add: k_def)
    qed
    have "groups_ok (m @ [(k, [b])]) (xs @ [b])"
      using 1 2 3 by (rule goal)
    then show ?thesis
      using eq unfolding k_def key_def by simp
  next
    case True
    define upd where "upd = (\<lambda>kv :: int \<times> StudyBlock list. if fst kv = k then (fst kv, snd kv @ [b]) else kv)"
    from True dist have eq: "add_to_day k b m = map upd m"
      unfolding upd_def by (rule add_to_day_present)
    have "fst (upd kv) = fst kv" for kv by (simp add: upd_def)
    then have fsts: "map fst (map upd m) = map fst m"
      by (simp add: comp_def)
    have 1: "distinct (map fst (map upd m))"
      unfolding fsts by (rule dist)
    have "fst ` set (map upd m) = set (map fst (map upd m))" by (simp only: set_map)
    also have "\<dots> = fst ` set m" unfolding fsts by (simp only: set_map)
    also have "\<dots> = insert k (key ` set xs)" using True unfolding keys by (simp add: insert_absorb)
    finally have 2: "fst ` set (map upd m) = insert k (key ` set xs)" .
    have 3: "snd kv = filter (\<lambda>x. key x = fst kv) (xs @ [b])"
      if "kv \<in> set (map upd m)" for kv
    proof -
      from that obtain e where e: "e \<in> set m" and kv: "kv = upd e"
        unfolding set_map by (rule imageE)
      show ?thesis
      proof (cases "fst e = k")
        case True
        then have "kv = (k, snd e @ [b])" by (simp add: kv upd_def)
        with grp [OF e] True show ?thesis by (simp add: k_def)
      next
        case False
        then have "kv = e" by (simp add: kv upd_def)
        moreover from False have "key b \<noteq> fst e" unfolding k_def by simp
        ultimately show ?thesis using grp [OF e] by simp
      qed
    qed
    have "groups_ok (map upd m) (xs @ [b])"
      using 1 2 3 by (rule goal)
    then show ?thesis
      using eq unfolding k_def key_def by simp
  qed
qed

lemma groups_ok_foldl:
  "groups_ok m xs \<Longrightarrow>
   groups_ok (foldl (\<lambda>m block. add_to_day (day_key (b_scheduled_time block)) block m) m ys) (xs @ ys)"
proof (induction ys arbitrary: m xs)
  case Nil
  then show ?case by simp
next
  case (Cons y ys)
  from groups_ok_step [OF Cons.prems, of y]
  have "groups_ok (add_to_day (day_key (b_scheduled_time y)) y m) (xs @ [y])" .
  from Cons.IH [OF this] show ?case by simp
qed

lemma blocks_by_day_groups:
  assumes "kv \<in> set (blocks_by_day study_blocks)"
  shows "snd kv = filter (\<lambda>b. day_key (b_scheduled_time b) = fst kv) study_blocks"
    and "snd kv \<noteq> []"
proof -
  have "groups_ok [] []" by (simp add: groups_ok_def)
  from groups_ok_foldl [OF this, of study_blocks]
  have ok: "groups_ok (blocks_by_day study_blocks) study_blocks"
    by (simp add: blocks_by_day_def)
  with assms show g: "snd kv = filter (\<lambda>b. day_key (b_scheduled_time b) = fst kv) study_blocks"
    by (simp add: groups_ok_def)
  from ok assms have "fst kv \<in> (\<lambda>b. day_key (b_scheduled_time b)) ` set study_blocks"
    unfolding groups_ok_def by blast
  then show "snd kv \<noteq> []"
    unfolding g by (auto simp: filter_empty_conv)
qed

lemma day_key_day_date:
  "day_key (midnight now + days d) = day_key (midnight now) + d"
  by (simp add: day_key_def days_def microseconds_per_day_def)

lemma daily_blocks_day_key:
  "b \<in> set (daily_blocks now tps p a d) \<Longrightarrow>
   day_key (b_scheduled_time b) = day_key (midnight now) + d"
  using daily_loop_scheduled_time [of b p a d "midnight now + days d" tps "daily_study_time p" 0]
  by (simp add: daily_blocks_def day_key_day_date)

lemma filter_generated_blocks:
  "filter (\<lambda>b. day_key (b_scheduled_time b) = k)
     (concat (map (\<lambda>day. daily_blocks now tps p a (int day)) [0..<n]))
   = (if day_key (midnight now) \<le> k \<and> k < day_key (midnight now) + int n
      then daily_blocks now tps p a (k - day_key (midnight now)) else [])"
proof (induction n)
  case 0
  then show ?case by auto
next
  case (Suc n)
  have last: "filter (\<lambda>b. day_key (b_scheduled_time b) = k) (daily_blocks now tps p a (int n))
        = (if k = day_key (midnight now) + int n then daily_blocks now tps p a (int n) else [])"
    using daily_blocks_day_key [of _ now tps p a "int n"]
    by (auto simp: filter_empty_conv intro!: filter_True)
  show ?case
    by (simp add: Suc.IH last)
qed

lemma group_is_daily_blocks:
  assumes "kv \<in> set (blocks_by_day (generate_study_blocks now tps p n a))"
  shows "\<exists>d. snd kv = daily_blocks now tps p a d \<and> snd kv \<noteq> []"
  using blocks_by_day_groups [OF assms]
  unfolding generate_study_blocks_def filter_generated_blocks
  by (auto split: if_splits)

lemma daily_blocks_budget:
  "daily_blocks now tps p a d \<noteq> [] \<Longrightarrow>
   sum_list (map b_duration_minutes (daily_blocks now tps p a d))
     + int (length (daily_blocks now tps p a d) - 1) * break_duration p
   \<le> daily_study_time p"
  unfolding daily_blocks_def by (rule daily_loop_budget)

lemma sum_list_insort_key:
  fixes g :: "'a \<Rightarrow> int"
  shows "sum_list (map g (insort_key f x xs)) = g x + sum_list (map g xs)"
  by (induction xs) auto

lemma sum_list_sort_key:
  fixes g :: "'a \<Rightarrow> int"
  shows "sum_list (map g (sort_key f xs)) = sum_list (map g xs)"
  by (induction xs) (auto simp: sum_list_insort_key)

lemma place_sessions_durations:
  "place_sessions p t bs = Inr ss \<Longrightarrow> map s_duration_minutes ss = map b_duration_minutes bs"
proof (induction bs arbitrary: t ss)
  case Nil
  then show ?case by simp
next
  case (Cons b bs)
  from Cons.prems obtain t' ss' where
    "find_optimal_time_slot t b p = Inr t'"
    and rest: "place_sessions p (t' + minutes (b_duration_minutes b + break_duration p)) bs = Inr ss'"
    and ss: "ss = make_session b t' p # ss'"
    by (auto split: sum.splits)
  from Cons.IH [OF rest] ss show ?case by (simp add: make_session_def)
qed

lemma optimize_daily_schedule_durations:
  assumes "optimize_daily_schedule now g p = Inr ss"
  shows "sum_list (map s_duration_minutes ss) = sum_list (map b_duration_minutes g)"
    and "length ss = length g"
proof -
  from assms obtain t where "place_sessions p t (sort_key block_sort_key g) = Inr ss"
    by (auto simp: optimize_daily_schedule_def Let_def split: sum.splits)
  then have m: "map s_duration_minutes ss = map b_duration_minutes (sort_key block_sort_key g)"
    by (rule place_sessions_durations)
  then show "sum_list (map s_duration_minutes ss) = sum_list (map b_duration_minutes g)"
    by (simp add: sum_list_sort_key)
  from m have "length (map s_duration_minutes ss) = length (map b_duration_minutes (sort_key block_sort_key g))"
    by simp
  then show "length ss = length g" by simp
qed

lemma optimize_days_entry:
  "optimize_days now p m = Inr sched \<Longrightarrow> ks \<in> set sched \<Longrightarrow>
   \<exists>kv \<in> set m. fst kv = fst ks \<and> optimize_daily_schedule now (snd kv) p = Inr (snd ks)"
proof (induction m arbitrary: sched)
  case Nil
  then show ?case by simp
next
  case (Cons e m)
  from Cons.prems(1) obtain day sched' where
    day: "optimize_daily_schedule now (snd e) p = Inr day"
    and rest: "optimize_days now p m = Inr sched'"
    and sched: "sched = (fst e, day) # sched'"
    by (auto split: sum.splits)
  show ?case
  proof (cases "ks = (fst e, day)")
    case True
    with day show ?thesis by simp
  next
    case False
    with Cons.prems(2) sched have "ks \<in> set sched'" by simp
    from Cons.IH [OF rest this] show ?thesis by auto
  qed
qed

lemmas plan_defs =
  generate_personalized_study_plan_def available_days_until_def timedelta_days_def days_def
  microseconds_per_day_def Let_def prioritize_topics_def priority_score_of_def
  get_topic_performance_def estimate_topic_difficulty_def difficulty_map_def lower_def
  generate_study_blocks_def daily_blocks_def session_duration_for_def
  calculate_optimal_duration_def py_int_def make_block_def determine_session_type_def
  convert_to_priority_enum_def get_topic_difficulty_def calculate_effort_score_def
  get_topic_prerequisites_def get_topic_objectives_def midnight_def
  optimize_schedule_def blocks_by_day_def day_key_def optimize_daily_schedule_def
  block_sort_key_def priority_value_def cognitive_load_of_def cognitive_load_def py_index_def
  replace_hour_sharp_def replace_hour_def find_optimal_time_slot_def hour_of_def minute_of_def
  microseconds_per_hour_def microseconds_per_minute_def minutes_def get_time_of_day_def
  style_efficiency_of_def efficiency_curves_def make_session_def generate_milestones_def
  date_value_def

lemma example_plan_generated:
  "generate_personalized_study_plan 0 Failed example_analytics [''Algebra'', ''Physics'']
     (Naive (days 1)) example_preferences = Inr example_plan"
  by (simp add: plan_defs example_analytics_def example_preferences_def example_plan_def
      example_day_def upt_rec)

text \<open>
  Claim C4: for every generated plan and every day in it, the durations of the day's
  sessions plus the breaks between consecutive sessions are at most the daily study time
  of the preferences.
\<close>

theorem daily_schedule_within_budget:
  assumes "generate_personalized_study_plan now quiz_query analytics topics target_date preferences
             = Inr plan"
    and "day \<in> set (p_daily_sessions plan)"
  shows "scheduled_minutes (break_duration preferences) (snd day) \<le> daily_study_time preferences"
proof -
  from assms(1) obtain n where
    sched: "optimize_schedule now
              (generate_study_blocks now (prioritize_topics topics analytics quiz_query)
                 preferences n analytics) preferences = Inr (p_daily_sessions plan)"
    by (auto simp: generate_personalized_study_plan_def Let_def split: sum.splits)
  let ?tps = "prioritize_topics topics analytics quiz_query"
  from optimize_days_entry [OF sched [unfolded optimize_schedule_def] assms(2)]
  obtain kv where kv: "kv \<in> set (blocks_by_day (generate_study_blocks now ?tps preferences n analytics))"
    and opt: "optimize_daily_schedule now (snd kv) preferences = Inr (snd day)"
    by auto
  from group_is_daily_blocks [OF kv] obtain d where
    g: "snd kv = daily_blocks now ?tps preferences analytics d" and ne: "snd kv \<noteq> []"
    by auto
  from daily_blocks_budget [of now ?tps preferences analytics d] g ne
  have "sum_list (map b_duration_minutes (snd kv))
          + int (length (snd kv) - 1) * break_duration preferences
        \<le> daily_study_time preferences" by simp
  then show ?thesis
    using optimize_daily_schedule_durations [OF opt]
    by (simp add: scheduled_minutes_def)
qed

theorem daily_schedule_within_budget_witness:
  "generate_personalized_study_plan 0 Failed example_analytics [''Algebra'', ''Physics'']
     (Naive (days 1)) example_preferences = Inr example_plan
   \<and> example_day \<in> set (p_daily_sessions example_plan)
   \<and> scheduled_minutes (break_duration example_preferences) (snd example_day)
       \<le> daily_study_time example_preferences
   \<and> scheduled_minutes (break_duration example_preferences) (snd example_day) = 40"
proof -
  have generated: "generate_personalized_study_plan 0 Failed example_analytics
      [''Algebra'', ''Physics''] (Naive (days 1)) example_preferences = Inr example_plan"
    by (rule example_plan_generated)
  have member: "example_day \<in> set (p_daily_sessions example_plan)"
    by (simp add: example_plan_def)
  have minutes: "scheduled_minutes (break_duration example_preferences) (snd example_day) = 40"
    by (simp add: example_day_def example_preferences_def scheduled_minutes_def)
  from daily_schedule_within_budget [OF generated member] generated member minutes
  show ?thesis by simp
qed

lemma timedelta_days_negative:
  "t < now \<Longrightarrow> timedelta_days (t - now) < 0"
  by (simp add: timedelta_days_def microseconds_per_day_def div_neg_pos_less0)

lemma no_days_no_sessions:
  "available_days \<le> 0 \<Longrightarrow>
   optimize_schedule now (generate_study_blocks now tps preferences available_days analytics)
     preferences = Inr []"
  by (simp add: optimize_schedule_def generate_study_blocks_def blocks_by_day_def)

lemma aware_target_date_fails:
  "q_target_date request = Aware t \<Longrightarrow>
   generate_study_plan now quiz_query analytics request = Inl HTTP_500"
  by (simp add: generate_study_plan_def generate_personalized_study_plan_def
      available_days_until_def)

text \<open>
  Claim C8, as stated, fails: a request made on day 5 for a plan up to day 2 is not
  rejected. The endpoint returns a plan with no sessions, a total study time of minus 360
  minutes and milestones on days 1 to 4. Neither the endpoint nor the generator compares
  the target date with the clock.
\<close>

theorem past_target_date_accepted:
  "generate_study_plan (days 5) Failed example_analytics past_request =
     Inr \<lparr> p_target_date = days 2, p_total_study_time_minutes = - 360,
           p_daily_sessions = [],
           p_learning_objectives =
             [''Master Algebra fundamentals'', ''Apply Algebra concepts'',
              ''Master Physics fundamentals'', ''Apply Physics concepts''],
           p_progress_milestones =
             [\<lparr> m_day = 1, m_number = 1, m_target_percent = 25 \<rparr>,
              \<lparr> m_day = 2, m_number = 2, m_target_percent = 50 \<rparr>,
              \<lparr> m_day = 3, m_number = 3, m_target_percent = 75 \<rparr>,
              \<lparr> m_day = 4, m_number = 4, m_target_percent = 100 \<rparr>],
           p_adaptive_adjustments = generate_adaptive_rules,
           p_estimated_completion =
             \<lparr> c_overall = 0.63, c_on_time = 0.504, c_with_extension = 0.756 \<rparr> \<rparr>"
  by (simp add: generate_study_plan_def plan_defs past_request_def example_analytics_def
      request_preferences_def estimate_completion_probability_def)

text \<open>
  Claim C8, amended: a request whose target date (a naive datetime) lies in the past is
  answered with a plan that has no daily sessions; the number of available days is
  negative and the total study time of the plan is that number times the daily study
  time.
\<close>

theorem past_target_date_empty_plan:
  assumes "q_target_date request = Naive t" and "t < now"
  shows "map_sum id p_daily_sessions (generate_study_plan now quiz_query analytics request) = Inr []
       \<and> map_sum id p_total_study_time_minutes
            (generate_study_plan now quiz_query analytics request)
          = Inr (timedelta_days (t - now) * q_daily_study_time request)
       \<and> timedelta_days (t - now) < 0"
proof -
  have neg: "timedelta_days (t - now) < 0"
    using assms(2) by (rule timedelta_days_negative)
  then have "timedelta_days (t - now) \<le> 0" by simp
  from no_days_no_sessions [OF this]
  show ?thesis
    using neg assms(1)
    by (simp add: generate_study_plan_def generate_personalized_study_plan_def
        available_days_until_def Let_def request_preferences_def)
qed

theorem past_target_date_empty_plan_witness:
  "q_target_date past_request = Naive (days 2) \<and> days 2 < days 5
   \<and> map_sum id p_daily_sessions (generate_study_plan (days 5) Failed example_analytics past_request)
       = Inr []
   \<and> map_sum id p_total_study_time_minutes
        (generate_study_plan (days 5) Failed example_analytics past_request) = Inr (- 360)"
  using past_target_date_empty_plan [of past_request "days 2" "days 5" Failed example_analytics]
  by (simp add: past_request_def days_def timedelta_days_def microseconds_per_day_def)

end
